theory Spec2Isabelle
  imports Complex_Main "HOL-Library.AList"
begin

section \<open>JSON values and Python outcomes\<close>

text \<open>
  The module \<^verbatim>\<open>melitools.py\<close> works on decoded JSON: Python dicts, lists, strings,
  numbers, booleans and \<^verbatim>\<open>None\<close>. A dict is an association list read with
  \<open>map_of\<close> (a decoded JSON object has each key once). Numbers are exact rationals:
  the rounding of Python floats is not modelled.
\<close>

datatype json =
    JNull
  | JBool bool
  | JNum rat
  | JStr string
  | JArr "json list"
  | JObj "(string \<times> json) list"

text \<open>
  Every \<^verbatim>\<open>raise\<close> of the source and of the library calls it makes is a value.
  \<open>Unmodelled\<close> marks the inputs on which the behaviour of an external library
  (pandas, jmespath) is outside the fragment written out here: there the model
  makes no statement, neither a result nor an exception.
\<close>

datatype pyerror =
    KeyError json
  | TypeError
  | AttributeError
  | UnboundLocalError
  | ZeroDivisionError
  | EmptyExpressionError
  | LexerError

datatype failure = Raises pyerror | Unmodelled

type_synonym 'a result = "failure + 'a"

definition and_then :: "'a result \<Rightarrow> ('a \<Rightarrow> 'b result) \<Rightarrow> 'b result" where
  "and_then r f = (case r of Inl e \<Rightarrow> Inl e | Inr v \<Rightarrow> f v)"

text \<open>\<^verbatim>\<open>d.get(k)\<close>: the value, \<^verbatim>\<open>None\<close> for a missing key; only a dict has \<^verbatim>\<open>get\<close>.\<close>

fun dict_get :: "json \<Rightarrow> string \<Rightarrow> json result" where
  "dict_get (JObj kv) k = Inr (case map_of kv k of None \<Rightarrow> JNull | Some v \<Rightarrow> v)"
| "dict_get JNull k = Inl (Raises AttributeError)"
| "dict_get (JBool b) k = Inl (Raises AttributeError)"
| "dict_get (JNum n) k = Inl (Raises AttributeError)"
| "dict_get (JStr s) k = Inl (Raises AttributeError)"
| "dict_get (JArr xs) k = Inl (Raises AttributeError)"

text \<open>\<^verbatim>\<open>d[k]\<close> with a string key: \<^verbatim>\<open>KeyError\<close> on a dict without the key,
  \<^verbatim>\<open>TypeError\<close> on every other JSON value.\<close>

fun py_getitem :: "json \<Rightarrow> string \<Rightarrow> json result" where
  "py_getitem (JObj kv) k =
     (case map_of kv k of None \<Rightarrow> Inl (Raises (KeyError (JStr k))) | Some v \<Rightarrow> Inr v)"
| "py_getitem JNull k = Inl (Raises TypeError)"
| "py_getitem (JBool b) k = Inl (Raises TypeError)"
| "py_getitem (JNum n) k = Inl (Raises TypeError)"
| "py_getitem (JStr s) k = Inl (Raises TypeError)"
| "py_getitem (JArr xs) k = Inl (Raises TypeError)"

text \<open>\<^verbatim>\<open>len(x)\<close>: defined on lists, strings and dicts; \<^verbatim>\<open>TypeError\<close> otherwise
  (in particular \<^verbatim>\<open>len(None)\<close>).\<close>

fun py_len :: "json \<Rightarrow> nat result" where
  "py_len (JArr xs) = Inr (length xs)"
| "py_len (JStr s) = Inr (length s)"
| "py_len (JObj kv) = Inr (length kv)"
| "py_len JNull = Inl (Raises TypeError)"
| "py_len (JBool b) = Inl (Raises TypeError)"
| "py_len (JNum n) = Inl (Raises TypeError)"

text \<open>Iteration \<^verbatim>\<open>for item in x\<close>: the elements of a list, the one-character
  strings of a string, the keys of a dict.\<close>

fun py_iter :: "json \<Rightarrow> json list result" where
  "py_iter (JArr xs) = Inr xs"
| "py_iter (JStr s) = Inr (map (\<lambda>c. JStr [c]) s)"
| "py_iter (JObj kv) = Inr (map (\<lambda>p. JStr (fst p)) kv)"
| "py_iter JNull = Inl (Raises TypeError)"
| "py_iter (JBool b) = Inl (Raises TypeError)"
| "py_iter (JNum n) = Inl (Raises TypeError)"

text \<open>\<^verbatim>\<open>range(limit)\<close>: empty for a limit below one.\<close>

definition py_range :: "int \<Rightarrow> int list" where
  "py_range limit = map int [0..<nat limit]"

text \<open>\<^verbatim>\<open>sep.join(parts)\<close>.\<close>

fun join :: "string \<Rightarrow> string list \<Rightarrow> string" where
  "join sep [] = []"
| "join sep [x] = x"
| "join sep (x # y # ys) = x @ sep @ join sep (y # ys)"


section \<open>The fetcher: \<^verbatim>\<open>get_category_country_list\<close>\<close>

text \<open>
  A request is what the URL of line 29 is built from: the site in the path, the
  category key \<^verbatim>\<open>country_id + category\<close> and the offset. The marketplace is a
  parameter \<open>api\<close>: the decoded body answered to a request, which may depend on
  how many requests the call has issued before (a mock answering from a fixed
  sequence, a listing that changes between calls). Transport failures and bodies
  that are not JSON are not modelled.
\<close>

record request =
  site :: string
  category_key :: string
  offset :: int

type_synonym api = "nat \<Rightarrow> request \<Rightarrow> json"

text \<open>The line printed at line 33: the category key, the offset and the payload of
  the response's \<^verbatim>\<open>error\<close> field.\<close>

datatype diagnostic = Diagnostic string int json

text \<open>The state of the two loops: the list \<^verbatim>\<open>all_results\<close>, and the two effects,
  the lines printed and the requests sent, in order.\<close>

record fetch_state =
  all_results :: "json list"
  printed :: "diagnostic list"
  requests :: "request list"

datatype control = Break | Continue

definition page_request :: "string \<Rightarrow> string \<Rightarrow> int \<Rightarrow> request" where
  "page_request country_id category i =
     \<lparr>site = country_id, category_key = country_id @ category, offset = 50 * i\<rparr>"

text \<open>The body of the inner loop, lines 27 to 35, for the page index \<open>i\<close>.\<close>

definition fetch_page ::
  "api \<Rightarrow> string \<Rightarrow> string \<Rightarrow> int \<Rightarrow> fetch_state \<Rightarrow> (control \<times> fetch_state) result" where
  "fetch_page api country_id category i s =
     (let req = page_request country_id category i;
          result = api (length (requests s)) req;
          s1 = s\<lparr>requests := requests s @ [req]\<rparr>
      in and_then (dict_get result ''results'') (\<lambda>r.
         and_then (py_len r) (\<lambda>n.
           if n = 0 then Inr (Break, s1)
           else and_then (dict_get result ''error'') (\<lambda>e.
             if e \<noteq> JNull
             then Inr (Break, s1\<lparr>printed := printed s1 @
                         [Diagnostic (country_id @ category) (offset req) e]\<rparr>)
             else and_then (py_getitem result ''results'') (\<lambda>page.
                    Inr (Continue, s1\<lparr>all_results := all_results s1 @ [page]\<rparr>))))))"

text \<open>The inner loop over the page indices still to visit.\<close>

fun fetch_pages ::
  "api \<Rightarrow> string \<Rightarrow> string \<Rightarrow> int list \<Rightarrow> fetch_state \<Rightarrow> fetch_state result" where
  "fetch_pages api country_id category [] s = Inr s"
| "fetch_pages api country_id category (i # rest) s =
     (case fetch_page api country_id category i s of
        Inl e \<Rightarrow> Inl e
      | Inr (Break, s') \<Rightarrow> Inr s'
      | Inr (Continue, s') \<Rightarrow> fetch_pages api country_id category rest s')"

text \<open>One round of the outer loop: all pages of one country.\<close>

definition fetch_country ::
  "api \<Rightarrow> string \<Rightarrow> int \<Rightarrow> fetch_state \<Rightarrow> string \<Rightarrow> fetch_state result" where
  "fetch_country api category limit s country_id =
     fetch_pages api country_id category (py_range limit) s"

fun fetch_countries ::
  "api \<Rightarrow> string \<Rightarrow> int \<Rightarrow> string list \<Rightarrow> fetch_state \<Rightarrow> fetch_state result" where
  "fetch_countries api category limit [] s = Inr s"
| "fetch_countries api category limit (country_id # rest) s =
     and_then (fetch_country api category limit s country_id)
       (fetch_countries api category limit rest)"

text \<open>Line 22: a single site id passed as a string is wrapped in a list.\<close>

datatype countries_arg = OneCountry string | CountryList "string list"

fun country_list :: "countries_arg \<Rightarrow> string list" where
  "country_list (OneCountry c) = [c]"
| "country_list (CountryList cs) = cs"

text \<open>Line 36: the comprehension that flattens \<^verbatim>\<open>all_results\<close>.\<close>

fun flatten :: "json list \<Rightarrow> json list result" where
  "flatten [] = Inr []"
| "flatten (sublist # rest) =
     and_then (py_iter sublist) (\<lambda>items.
     and_then (flatten rest) (\<lambda>more. Inr (items @ more)))"

definition initial_state :: fetch_state where
  "initial_state = \<lparr>all_results = [], printed = [], requests = []\<rparr>"

text \<open>The state when the loops are over: what was collected, printed and requested.\<close>

definition run_fetch :: "api \<Rightarrow> countries_arg \<Rightarrow> string \<Rightarrow> int \<Rightarrow> fetch_state result" where
  "run_fetch api countries category limit =
     fetch_countries api category limit (country_list countries) initial_state"

definition get_category_country_list ::
  "api \<Rightarrow> countries_arg \<Rightarrow> string \<Rightarrow> int \<Rightarrow> json list result" where
  "get_category_country_list api countries category limit =
     and_then (run_fetch api countries category limit) (\<lambda>s. flatten (all_results s))"


section \<open>The jmespath queries\<close>

text \<open>
  \<^verbatim>\<open>jmespath.search(expression, data)\<close> compiles a string of the JMESPath language
  and evaluates it. Two families of expressions reach it from this module, and only
  those are written out.

  The first is the dotted path of line 58. The lexer reads letters and the underscore
  as the start of an unquoted identifier, letters, digits and the underscore as its
  continuation, and the dot as a token; a character it has no rule for makes it raise
  \<^verbatim>\<open>LexerError\<close> (unknown token), and the empty expression raises
  \<^verbatim>\<open>EmptyExpressionError\<close>. Identifiers separated by single dots parse as a chain
  of field lookups. Every other expression (quotes, brackets, wildcards, numbers,
  white space and so on) is left \<open>Unmodelled\<close>.
\<close>

definition START_IDENTIFIER :: "char \<Rightarrow> bool" where
  "START_IDENTIFIER c =
     (c \<in> set ''abcdefghijklmnopqrstuvwxyzABCDEFGHIJKLMNOPQRSTUVWXYZ_'')"

definition VALID_IDENTIFIER :: "char \<Rightarrow> bool" where
  "VALID_IDENTIFIER c = (START_IDENTIFIER c \<or> c \<in> set ''0123456789'')"

definition is_identifier :: "string \<Rightarrow> bool" where
  "is_identifier s =
     (case s of [] \<Rightarrow> False | c # cs \<Rightarrow> START_IDENTIFIER c \<and> list_all VALID_IDENTIFIER cs)"

text \<open>Some printable characters for which the lexer has no rule at all.\<close>

definition unknown_token :: "char \<Rightarrow> bool" where
  "unknown_token c = (c \<in> set ''#;^~'')"

definition path_char :: "char \<Rightarrow> bool" where
  "path_char c = (VALID_IDENTIFIER c \<or> c = CHR ''.'')"

text \<open>The pieces of a string between its dots.\<close>

fun split_dots :: "string \<Rightarrow> string list" where
  "split_dots [] = [[]]"
| "split_dots (c # cs) =
     (let r = split_dots cs
      in if c = CHR ''.'' then [] # r else (c # hd r) # tl r)"

text \<open>A field node: \<^verbatim>\<open>value.get(name)\<close>, and \<^verbatim>\<open>None\<close> when the value is not a dict.\<close>

fun visit_field :: "string \<Rightarrow> json \<Rightarrow> json" where
  "visit_field name (JObj kv) = (case map_of kv name of None \<Rightarrow> JNull | Some v \<Rightarrow> v)"
| "visit_field name JNull = JNull"
| "visit_field name (JBool b) = JNull"
| "visit_field name (JNum n) = JNull"
| "visit_field name (JStr s) = JNull"
| "visit_field name (JArr xs) = JNull"

text \<open>A chain \<^verbatim>\<open>a.b.c\<close>: each field is looked up in the result of the one before.\<close>

definition visit_subexpression :: "string list \<Rightarrow> json \<Rightarrow> json" where
  "visit_subexpression names data = fold visit_field names data"

definition jmespath_search :: "string \<Rightarrow> json \<Rightarrow> json result" where
  "jmespath_search expression data =
     (if expression = [] then Inl (Raises EmptyExpressionError)
      else case dropWhile path_char expression of
             [] \<Rightarrow> if list_all is_identifier (split_dots expression)
                   then Inr (visit_subexpression (split_dots expression) data)
                   else Inl Unmodelled
           | c # rest \<Rightarrow> if unknown_token c then Inl (Raises LexerError) else Inl Unmodelled)"

text \<open>
  The second is the attribute query of line 97,
  \<^verbatim>\<open>attributes[?id=='X'].value_name | [0]\<close>: a filter projection over the field
  \<^verbatim>\<open>attributes\<close>, piped into an index. A filter projection of something that is not a
  list is \<^verbatim>\<open>None\<close>; on a list it keeps the elements that satisfy the condition,
  evaluates the right-hand side on each and collects the results that are not
  \<^verbatim>\<open>None\<close>. The index \<^verbatim>\<open>[0]\<close> of something that is not a list, or of an empty
  list, is \<^verbatim>\<open>None\<close>.
\<close>

definition visit_filter_projection ::
  "(json \<Rightarrow> bool) \<Rightarrow> (json \<Rightarrow> json) \<Rightarrow> json \<Rightarrow> json" where
  "visit_filter_projection condition rhs base =
     (case base of
        JArr elements \<Rightarrow>
          JArr (filter (\<lambda>current. current \<noteq> JNull) (map rhs (filter condition elements)))
      | JNull \<Rightarrow> JNull | JBool b \<Rightarrow> JNull | JNum n \<Rightarrow> JNull | JStr s \<Rightarrow> JNull
      | JObj kv \<Rightarrow> JNull)"

fun visit_index0 :: "json \<Rightarrow> json" where
  "visit_index0 (JArr (x # xs)) = x"
| "visit_index0 (JArr []) = JNull"
| "visit_index0 JNull = JNull"
| "visit_index0 (JBool b) = JNull"
| "visit_index0 (JNum n) = JNull"
| "visit_index0 (JStr s) = JNull"
| "visit_index0 (JObj kv) = JNull"

text \<open>
  Line 97 pastes \<^verbatim>\<open>attribute_id\<close> between single quotes, a raw string literal of
  JMESPath. The literal is the identifier itself as long as the identifier has no
  single quote and no backslash; with one of them the expression is a different
  one, left \<open>Unmodelled\<close>. The comparison \<^verbatim>\<open>id == 'X'\<close> holds for an element whose
  field \<^verbatim>\<open>id\<close> is the string \<^verbatim>\<open>X\<close>.
\<close>

definition get_specific_attribute :: "string \<Rightarrow> json \<Rightarrow> json result" where
  "get_specific_attribute attribute_id result =
     (if CHR 0x27 \<in> set attribute_id \<or> CHR 0x5C \<in> set attribute_id then Inl Unmodelled
      else Inr (visit_index0
             (visit_filter_projection
                (\<lambda>element. visit_field ''id'' element = JStr attribute_id)
                (visit_field ''value_name'')
                (visit_field ''attributes'' result))))"


section \<open>The row extractor: \<^verbatim>\<open>single_df\<close>\<close>

text \<open>A feature is a field name or a tuple of path segments (line 57).\<close>

datatype selector = Direct string | Nested "string list"

definition default_features :: "selector list" where
  "default_features =
     [Direct ''site_id'', Direct ''price'', Direct ''currency_id'',
      Direct ''available_quantity'', Direct ''sold_quantity'', Direct ''buying_mode'',
      Direct ''listing_type_id'', Direct ''condition'', Direct ''accepts_mercadopago'',
      Direct ''original_price'',
      Nested [''seller'', ''seller_reputation'', ''level_id''],
      Nested [''shipping'', ''free_shipping''],
      Nested [''address'', ''state_name'']]"

definition default_attributes :: "string list" where
  "default_attributes = [''BRAND'', ''MODEL'']"

text \<open>Lines 47 and 53: \<^verbatim>\<open>None\<close> and the empty list are both replaced by the default.\<close>

fun features_or_default :: "selector list option \<Rightarrow> selector list" where
  "features_or_default None = default_features"
| "features_or_default (Some []) = default_features"
| "features_or_default (Some (f # fs)) = f # fs"

fun attributes_or_default :: "string list option \<Rightarrow> string list" where
  "attributes_or_default None = default_attributes"
| "attributes_or_default (Some []) = default_attributes"
| "attributes_or_default (Some (a # as)) = a # as"

text \<open>
  A data frame is the list of its rows; a row is the list of its cells, each under
  its column label, in column order. \<^verbatim>\<open>pd.DataFrame(index=[0])\<close> is one row with no
  column. The labels of a frame without rows are not represented: no function of
  the module returns such a frame. Cells are JSON values: a null cell stands for
  \<^verbatim>\<open>None\<close> and for NaN alike, a number for an integer and for a float alike, so the
  dtype a column has in pandas is not part of the model.

  \<^verbatim>\<open>df[column] = v\<close> on the one-row frame writes a scalar \<open>v\<close> (a string, number,
  boolean or \<^verbatim>\<open>None\<close>) into the row, replacing the cell of an existing column in
  place and appending a new column at the end. What pandas does with a list or a dict
  on the right depends on its length, its keys and the pandas version: \<open>Unmodelled\<close>.
\<close>

type_synonym row = "(string \<times> json) list"

type_synonym frame = "row list"

fun is_scalar :: "json \<Rightarrow> bool" where
  "is_scalar (JArr xs) = False"
| "is_scalar (JObj kv) = False"
| "is_scalar JNull = True"
| "is_scalar (JBool b) = True"
| "is_scalar (JNum n) = True"
| "is_scalar (JStr s) = True"

definition set_cell :: "row \<Rightarrow> string \<Rightarrow> json \<Rightarrow> row result" where
  "set_cell df column v = (if is_scalar v then Inr (AList.update column v df) else Inl Unmodelled)"

text \<open>Lines 57 to 60: the column a feature is stored under, and its value.\<close>

fun feature_column :: "selector \<Rightarrow> string" where
  "feature_column (Nested feature) = join ''_'' feature"
| "feature_column (Direct feature) = feature"

fun feature_value :: "selector \<Rightarrow> json \<Rightarrow> json result" where
  "feature_value (Nested feature) result = jmespath_search (join ''.'' feature) result"
| "feature_value (Direct feature) result = py_getitem result feature"

text \<open>One round of the loop of line 56.\<close>

definition set_feature :: "row \<Rightarrow> selector \<Rightarrow> json \<Rightarrow> row result" where
  "set_feature df feature result =
     and_then (feature_value feature result) (set_cell df (feature_column feature))"

fun set_features :: "row \<Rightarrow> selector list \<Rightarrow> json \<Rightarrow> row result" where
  "set_features df [] result = Inr df"
| "set_features df (feature # rest) result =
     and_then (set_feature df feature result) (\<lambda>df'. set_features df' rest result)"

text \<open>The loop of line 61.\<close>

fun set_attributes :: "row \<Rightarrow> string list \<Rightarrow> json \<Rightarrow> row result" where
  "set_attributes df [] result = Inr df"
| "set_attributes df (attrib # rest) result =
     and_then (and_then (get_specific_attribute attrib result) (set_cell df attrib))
       (\<lambda>df'. set_attributes df' rest result)"

definition single_df ::
  "json \<Rightarrow> selector list option \<Rightarrow> string list option \<Rightarrow> frame result" where
  "single_df result features attributes =
     and_then (set_features [] (features_or_default features) result) (\<lambda>df.
     and_then (set_attributes df (attributes_or_default attributes) result) (\<lambda>df'.
     Inr [df']))"


section \<open>The table assembler: \<^verbatim>\<open>basic_df\<close>\<close>

text \<open>
  \<^verbatim>\<open>pd.concat([a, b], ignore_index=True)\<close>: the rows of \<open>a\<close>, then those of \<open>b\<close>,
  renumbered; the columns are those of \<open>a\<close> followed by the columns only \<open>b\<close> has, and
  a cell a row has no value for is null.
\<close>

definition frame_columns :: "frame \<Rightarrow> string list" where
  "frame_columns df = (case df of [] \<Rightarrow> [] | r # rest \<Rightarrow> map fst r)"

definition reindex_row :: "string list \<Rightarrow> row \<Rightarrow> row" where
  "reindex_row cols r = map (\<lambda>c. (c, case map_of r c of None \<Rightarrow> JNull | Some v \<Rightarrow> v)) cols"

definition concat_frames :: "frame \<Rightarrow> frame \<Rightarrow> frame" where
  "concat_frames a b =
     (let cols = frame_columns a @ filter (\<lambda>c. c \<notin> set (frame_columns a)) (frame_columns b)
      in map (reindex_row cols) (a @ b))"

text \<open>
  The loop of lines 75 to 83. The variable \<^verbatim>\<open>df\<close> is unbound until the first round
  (the flag \<^verbatim>\<open>start\<close> is true exactly as long as it is): \<open>None\<close> stands for both.
\<close>

fun basic_df_loop ::
  "json list \<Rightarrow> selector list option \<Rightarrow> string list option \<Rightarrow> frame option
     \<Rightarrow> frame option result" where
  "basic_df_loop [] features attributes df = Inr df"
| "basic_df_loop (result # rest) features attributes df =
     and_then (single_df result features attributes) (\<lambda>new.
       basic_df_loop rest features attributes
         (Some (case df of None \<Rightarrow> new | Some old \<Rightarrow> concat_frames old new)))"

text \<open>Line 84 reads \<^verbatim>\<open>df\<close>: \<^verbatim>\<open>UnboundLocalError\<close> when no round has assigned it.\<close>

definition basic_df ::
  "json list \<Rightarrow> selector list option \<Rightarrow> string list option \<Rightarrow> frame result" where
  "basic_df results features attributes =
     and_then (basic_df_loop results features attributes None) (\<lambda>df.
       case df of None \<Rightarrow> Inl (Raises UnboundLocalError) | Some d \<Rightarrow> Inr d)"


section \<open>The enricher: \<^verbatim>\<open>calculate_discount_metrics\<close>\<close>

text \<open>
  The module-level dict \<^verbatim>\<open>mapper_currency\<close> (line 9) is a parameter: a map from
  currency codes to rates. \<^verbatim>\<open>mapper_currency[c]\<close> raises \<^verbatim>\<open>KeyError\<close> for a cell
  \<open>c\<close> that is not one of its keys; its keys are strings.
\<close>

type_synonym rates = "string \<Rightarrow> rat option"

fun rate_lookup :: "rates \<Rightarrow> json \<Rightarrow> rat result" where
  "rate_lookup mapper_currency (JStr code) =
     (case mapper_currency code of
        None \<Rightarrow> Inl (Raises (KeyError (JStr code)))
      | Some rate \<Rightarrow> Inr rate)"
| "rate_lookup mapper_currency JNull = Inl (Raises (KeyError JNull))"
| "rate_lookup mapper_currency (JBool b) = Inl (Raises (KeyError (JBool b)))"
| "rate_lookup mapper_currency (JNum n) = Inl (Raises (KeyError (JNum n)))"
| "rate_lookup mapper_currency (JArr xs) = Inl (Raises TypeError)"
| "rate_lookup mapper_currency (JObj kv) = Inl (Raises TypeError)"

text \<open>\<^verbatim>\<open>row.name\<close> and \<^verbatim>\<open>df.name\<close>: \<^verbatim>\<open>AttributeError\<close> when there is no such column.\<close>

definition row_attr :: "row \<Rightarrow> string \<Rightarrow> json result" where
  "row_attr r name =
     (case map_of r name of None \<Rightarrow> Inl (Raises AttributeError) | Some v \<Rightarrow> Inr v)"

text \<open>
  Arithmetic on cells. Two numbers divide and subtract as numbers, and a division
  by a zero rate raises; a string operand raises \<^verbatim>\<open>TypeError\<close>. A null or boolean
  operand is \<open>Unmodelled\<close>: pandas holds a missing number as \<^verbatim>\<open>None\<close> or as NaN
  depending on the column's dtype, and the one raises where the other does not.
\<close>

fun py_truediv :: "json \<Rightarrow> rat \<Rightarrow> json result" where
  "py_truediv (JNum x) rate =
     (if rate = 0 then Inl (Raises ZeroDivisionError) else Inr (JNum (x / rate)))"
| "py_truediv (JStr s) rate = Inl (Raises TypeError)"
| "py_truediv JNull rate = Inl Unmodelled"
| "py_truediv (JBool b) rate = Inl Unmodelled"
| "py_truediv (JArr xs) rate = Inl Unmodelled"
| "py_truediv (JObj kv) rate = Inl Unmodelled"

fun py_sub :: "json \<Rightarrow> json \<Rightarrow> json result" where
  "py_sub (JNum x) (JNum y) = Inr (JNum (x - y))"
| "py_sub (JNum x) (JStr t) = Inl (Raises TypeError)"
| "py_sub (JStr s) (JNum y) = Inl (Raises TypeError)"
| "py_sub (JStr s) (JStr t) = Inl (Raises TypeError)"
| "py_sub x y = Inl Unmodelled"

text \<open>\<^verbatim>\<open>isna\<close>: true of a null cell (\<^verbatim>\<open>None\<close> and NaN are one value here).\<close>

definition isna :: "json \<Rightarrow> bool" where
  "isna v = (v = JNull)"

text \<open>
  The lambda of lines 111 and 119, for the column \<open>amount\<close> (\<^verbatim>\<open>price\<close> there,
  \<^verbatim>\<open>descuento_precio\<close> here): the condition is evaluated first, then the amount, then
  the rate, then the quotient.
\<close>

definition to_USD :: "rates \<Rightarrow> string \<Rightarrow> row \<Rightarrow> json result" where
  "to_USD mapper_currency amount r =
     and_then (row_attr r ''currency_id'') (\<lambda>currency_id.
       if currency_id \<noteq> JStr ''USD''
       then and_then (row_attr r amount) (\<lambda>x.
            and_then (rate_lookup mapper_currency currency_id) (\<lambda>rate.
            py_truediv x rate))
       else row_attr r amount)"

text \<open>The lambda of line 117.\<close>

definition descuento_precio :: "row \<Rightarrow> json result" where
  "descuento_precio r =
     and_then (row_attr r ''discount'') (\<lambda>discount.
       if discount = JNum 1
       then and_then (row_attr r ''original_price'') (\<lambda>original_price.
            and_then (row_attr r ''price'') (\<lambda>price.
            py_sub original_price price))
       else Inr (JNum 0))"

text \<open>\<^verbatim>\<open>df.apply(f, axis=1)\<close> on a frame with rows: \<open>f\<close> on each row in order, up to the
  first one that raises.\<close>

fun apply_rows :: "(row \<Rightarrow> json result) \<Rightarrow> frame \<Rightarrow> json list result" where
  "apply_rows f [] = Inr []"
| "apply_rows f (r # rest) =
     and_then (f r) (\<lambda>v. and_then (apply_rows f rest) (\<lambda>vs. Inr (v # vs)))"

text \<open>\<^verbatim>\<open>df[column] = values\<close>, one value for each row.\<close>

definition set_column :: "frame \<Rightarrow> string \<Rightarrow> json list \<Rightarrow> frame" where
  "set_column df column vs = map (\<lambda>(r, v). AList.update column v r) (zip df vs)"

text \<open>\<^verbatim>\<open>df.loc[selected, column] = v\<close>, for a boolean column \<open>selected\<close>.\<close>

definition loc_assign :: "frame \<Rightarrow> bool list \<Rightarrow> string \<Rightarrow> json \<Rightarrow> frame" where
  "loc_assign df selected column v =
     map (\<lambda>(r, m). if m then AList.update column v r else r) (zip df selected)"

text \<open>
  Lines 111 to 121. On a frame without rows \<^verbatim>\<open>apply\<close> returns a frame, not a
  column, and what the assignment then does depends on the pandas version:
  \<open>Unmodelled\<close>. An exception leaves the caller's frame with the columns assigned so
  far; that partial update is not part of the result here.
\<close>

definition calculate_discount_metrics :: "rates \<Rightarrow> frame \<Rightarrow> frame result" where
  "calculate_discount_metrics mapper_currency df =
     (if df = [] then Inl Unmodelled
      else
        and_then (apply_rows (to_USD mapper_currency ''price'') df) (\<lambda>price_USD.
        let df1 = set_column df ''price_USD'' price_USD;
            df2 = set_column df1 ''discount'' (replicate (length df1) (JNum 1))
        in
        and_then (apply_rows (\<lambda>r. row_attr r ''original_price'') df2) (\<lambda>original_price.
        let df3 = loc_assign df2 (map isna original_price) ''discount'' (JNum 0)
        in
        and_then (apply_rows descuento_precio df3) (\<lambda>descuento.
        let df4 = set_column df3 ''descuento_precio'' descuento
        in
        and_then (apply_rows (to_USD mapper_currency ''descuento_precio'') df4) (\<lambda>descuento_USD.
        Inr (set_column df4 ''descuento_USD'' descuento_USD))))))"


section \<open>The specification's reading of the attribute query\<close>

text \<open>
  The specification describes the attribute query as: the display value of the first
  entry of the attribute list whose identifier equals the given one, null when no
  entry matches. This definition follows those words, to be compared with
  \<open>get_specific_attribute\<close>.
\<close>

definition spec_first_match_value_name :: "string \<Rightarrow> json list \<Rightarrow> json" where
  "spec_first_match_value_name attribute_id entries =
     (case filter (\<lambda>e. visit_field ''id'' e = JStr attribute_id) entries of
        [] \<Rightarrow> JNull
      | e # rest \<Rightarrow> visit_field ''value_name'' e)"

text \<open>What the query computes: the first display value that is not null among the
  entries whose identifier equals the given one, by a scan from the left.\<close>

fun first_value_name :: "string \<Rightarrow> json list \<Rightarrow> json" where
  "first_value_name attribute_id [] = JNull"
| "first_value_name attribute_id (e # rest) =
     (if visit_field ''id'' e = JStr attribute_id \<and> visit_field ''value_name'' e \<noteq> JNull
      then visit_field ''value_name'' e
      else first_value_name attribute_id rest)"


section \<open>Vocabulary of the properties and sample inputs\<close>

text \<open>The results list of a response, when it is a dict with a list under
  \<^verbatim>\<open>results\<close>; and whether a response carries an \<^verbatim>\<open>error\<close> field that is not null.\<close>

fun results_list :: "json \<Rightarrow> json list option" where
  "results_list (JObj kv) =
     (case map_of kv ''results'' of Some (JArr items) \<Rightarrow> Some items | _ \<Rightarrow> None)"
| "results_list _ = None"



text \<open>Two error bodies: the first has no \<^verbatim>\<open>results\<close> field, the second an empty one.\<close>

definition error_body :: json where
  "error_body =
     JObj [(''message'', JStr ''Category not found''), (''error'', JStr ''not_found''),
           (''status'', JNum 404), (''cause'', JArr [])]"

definition empty_error_body :: json where
  "empty_error_body = JObj [(''results'', JArr []), (''error'', JStr ''forbidden'')]"


text \<open>Whether a value is a dict that has the key.\<close>

fun has_key :: "json \<Rightarrow> string \<Rightarrow> bool" where
  "has_key (JObj kv) k = (map_of kv k \<noteq> None)"
| "has_key _ k = False"


text \<open>A record with one attribute, and an attribute list that names the brand twice,
  the first time without a display value.\<close>

definition acme_record :: json where
  "acme_record = JObj [(''attributes'', JArr [JObj [(''id'', JStr ''BRAND''), (''value_name'', JStr ''Acme'')]])]"

definition two_brands :: "json list" where
  "two_brands = [JObj [(''id'', JStr ''BRAND''), (''value_name'', JNull)],
                 JObj [(''id'', JStr ''BRAND''), (''value_name'', JStr ''Acme'')]]"


text \<open>The column labels a list of selectors and attributes gives rise to: each label
  once, in the order of its first occurrence.\<close>

definition add_label :: "string list \<Rightarrow> string \<Rightarrow> string list" where
  "add_label cols c = (if c \<in> set cols then cols else cols @ [c])"




text \<open>The four columns the enricher assigns, in the order of the assignments.\<close>

definition derived_columns :: "string list" where
  "derived_columns = [''price_USD'', ''discount'', ''descuento_precio'', ''descuento_USD'']"

text \<open>
  The four derivations of lines 111 to 120 read along one row: what the cells of that
  row go through, in the same order. The column-wise code and this row-wise reading
  are related by \<open>calculate_discount_metrics_rows\<close> below.
\<close>

definition enrich_row :: "rates \<Rightarrow> row \<Rightarrow> row result" where
  "enrich_row mapper_currency r =
     and_then (to_USD mapper_currency ''price'' r) (\<lambda>price_USD.
     let r2 = AList.update ''discount'' (JNum 1) (AList.update ''price_USD'' price_USD r)
     in
     and_then (row_attr r2 ''original_price'') (\<lambda>original_price.
     let r3 = (if isna original_price then AList.update ''discount'' (JNum 0) r2 else r2)
     in
     and_then (descuento_precio r3) (\<lambda>descuento.
     let r4 = AList.update ''descuento_precio'' descuento r3
     in
     and_then (to_USD mapper_currency ''descuento_precio'' r4) (\<lambda>descuento_USD.
     Inr (AList.update ''descuento_USD'' descuento_USD r4)))))"

text \<open>Whether a cell is a key of the rate map.\<close>

fun is_rate_key :: "rates \<Rightarrow> json \<Rightarrow> bool" where
  "is_rate_key mapper_currency (JStr code) = (mapper_currency code \<noteq> None)"
| "is_rate_key mapper_currency _ = False"

text \<open>The specification's scenario for the enricher: one rate, a discounted listing
  in that currency and a listing in dollars without an original price; and what the
  enricher makes of them.\<close>

definition sample_rates :: rates where
  "sample_rates code = (if code = ''ARS'' then Some 1000 else None)"

definition sample_table :: frame where
  "sample_table =
     [[(''price'', JNum 100), (''currency_id'', JStr ''ARS''), (''original_price'', JNum 150)],
      [(''price'', JNum 20), (''currency_id'', JStr ''USD''), (''original_price'', JNull)]]"

definition enriched_sample :: frame where
  "enriched_sample =
     [[(''price'', JNum 100), (''currency_id'', JStr ''ARS''), (''original_price'', JNum 150),
       (''price_USD'', JNum (1 / 10)), (''discount'', JNum 1), (''descuento_precio'', JNum 50),
       (''descuento_USD'', JNum (1 / 20))],
      [(''price'', JNum 20), (''currency_id'', JStr ''USD''), (''original_price'', JNull),
       (''price_USD'', JNum 20), (''discount'', JNum 0), (''descuento_precio'', JNum 0),
       (''descuento_USD'', JNum 0)]]"

text \<open>The second row of the enriched sample.\<close>

definition no_discount_row :: row where
  "no_discount_row =
      [(''price'', JNum 20), (''currency_id'', JStr ''USD''), (''original_price'', JNull),
       (''price_USD'', JNum 20), (''discount'', JNum 0), (''descuento_precio'', JNum 0),
       (''descuento_USD'', JNum 0)]"

text \<open>A row in a currency the sample rates do not have.\<close>

definition brl_row :: row where
  "brl_row = [(''price'', JNum 100), (''currency_id'', JStr ''BRL''), (''original_price'', JNull)]"

text \<open>A table that already has a column named \<^verbatim>\<open>price_USD\<close>.\<close>

definition repriced_table :: frame where
  "repriced_table =
     [[(''price'', JNum 100), (''currency_id'', JStr ''ARS''), (''original_price'', JNull),
       (''price_USD'', JNum 5)]]"


section \<open>Properties of the fetcher\<close>










text \<open>
  When the results list is non-empty and the \<^verbatim>\<open>error\<close> field is set, the page loop
  does what lines 32 to 34 say: one diagnostic with the category key, the offset and
  the payload, and a break that keeps what was collected.
\<close>

lemma fetch_page_error:
  assumes "results_list (api (length (requests s)) (page_request c cat i)) = Some items"
    and "items \<noteq> []"
    and "api (length (requests s)) (page_request c cat i) = JObj kv"
    and "map_of kv ''error'' = Some e" and "e \<noteq> JNull"
  shows "fetch_page api c cat i s =
           Inr (Break, s\<lparr>requests := requests s @ [page_request c cat i],
                          printed := printed s @ [Diagnostic (c @ cat) (50 * i) e]\<rparr>)"
  using assms
  by (simp add: fetch_page_def and_then_def Let_def page_request_def
           split: option.splits json.splits)

text \<open>
  Claim C2. The specification says that a response signalling an API-level error
  always leads to a diagnostic and to the end of that country's pages, never to a hard
  failure. The code tests the length of \<^verbatim>\<open>result.get('results')\<close> (line 30) before
  it looks at the \<^verbatim>\<open>error\<close> field (line 32). For an error body without a
  \<^verbatim>\<open>results\<close> field that length is \<^verbatim>\<open>len(None)\<close>: the call raises
  \<^verbatim>\<open>TypeError\<close>, and the second country is never queried. For an error body with
  an empty results list the loop breaks at line 31 and prints nothing.
\<close>

theorem fetch_error_response_diverges:
  "run_fetch (\<lambda>n req. error_body) (CountryList [''MLA'', ''MLB'']) ''1055'' 1
     = Inl (Raises TypeError)
   \<and> get_category_country_list (\<lambda>n req. error_body) (CountryList [''MLA'', ''MLB'']) ''1055'' 1
     = Inl (Raises TypeError)
   \<and> run_fetch (\<lambda>n req. empty_error_body) (CountryList [''MLA'']) ''1055'' 1
     = Inr \<lparr>all_results = [], printed = [],
            requests = [\<lparr>site = ''MLA'', category_key = ''MLA1055'', offset = 0\<rparr>]\<rparr>"
  by (simp add: get_category_country_list_def run_fetch_def fetch_country_def py_range_def
        fetch_page_def page_request_def and_then_def initial_state_def Let_def
        error_body_def empty_error_body_def)


section \<open>Properties of the row extractor\<close>

lemma VALID_IDENTIFIER_not_dot: "VALID_IDENTIFIER c \<Longrightarrow> c \<noteq> CHR ''.''"
  by (auto simp: VALID_IDENTIFIER_def START_IDENTIFIER_def)

lemma is_identifier_chars: "is_identifier s \<Longrightarrow> list_all VALID_IDENTIFIER s"
  by (cases s) (simp_all add: is_identifier_def VALID_IDENTIFIER_def)

lemma is_identifier_nonempty: "is_identifier s \<Longrightarrow> s \<noteq> []"
  by (auto simp: is_identifier_def)

lemma is_identifier_no_dot: "is_identifier s \<Longrightarrow> CHR ''.'' \<notin> set s"
  using is_identifier_chars VALID_IDENTIFIER_not_dot by (fastforce simp: list_all_iff)

lemma split_dots_no_dot: "CHR ''.'' \<notin> set s \<Longrightarrow> split_dots s = [s]"
  by (induction s) (auto simp: Let_def)

lemma split_dots_append: "CHR ''.'' \<notin> set x \<Longrightarrow> split_dots (x @ CHR ''.'' # r) = x # split_dots r"
proof (induction x)
  case Nil
  then show ?case by (simp add: Let_def)
next
  case (Cons c x)
  then show ?case by (auto simp: Let_def)
qed

lemma split_dots_join:
  assumes "segs \<noteq> []" and "list_all (\<lambda>s. CHR ''.'' \<notin> set s) segs"
  shows "split_dots (join ''.'' segs) = segs"
  using assms
proof (induction "''.''" segs rule: join.induct)
  case 1
  then show ?case by simp
next
  case (2 x)
  then show ?case by (simp add: split_dots_no_dot)
next
  case (3 x y ys)
  then show ?case by (simp add: split_dots_append)
qed

lemma path_chars_join:
  assumes "list_all is_identifier segs"
  shows "list_all path_char (join ''.'' segs)"
  using assms
proof (induction "''.''" segs rule: join.induct)
  case 1
  then show ?case by simp
next
  case (2 x)
  then show ?case
    using is_identifier_chars [of x] by (auto simp: list_all_iff path_char_def)
next
  case (3 x y ys)
  then show ?case
    using is_identifier_chars [of x] by (auto simp: list_all_iff path_char_def)
qed

lemma join_nonempty:
  assumes "segs \<noteq> []" and "list_all is_identifier segs"
  shows "join sep segs \<noteq> []"
  using assms by (induction sep segs rule: join.induct) (auto dest: is_identifier_nonempty)

lemma jmespath_search_path:
  assumes "segs \<noteq> []" and "list_all is_identifier segs"
  shows "jmespath_search (join ''.'' segs) data = Inr (visit_subexpression segs data)"
proof -
  have nodot: "list_all (\<lambda>s. CHR ''.'' \<notin> set s) segs"
    using assms(2) is_identifier_no_dot by (auto simp: list_all_iff)
  have split: "split_dots (join ''.'' segs) = segs"
    by (rule split_dots_join [OF assms(1) nodot])
  have dw: "dropWhile path_char (join ''.'' segs) = []"
    using path_chars_join [OF assms(2)] by (simp add: list_all_iff)
  show ?thesis
    using join_nonempty [OF assms] assms(2) by (simp add: jmespath_search_def split dw)
qed

lemma visit_field_absent: "\<not> has_key v k \<Longrightarrow> visit_field k v = JNull"
  by (cases v) auto

lemma fold_visit_field_null: "fold visit_field names JNull = JNull"
  by (induction names) simp_all

lemma visit_subexpression_missing:
  assumes "\<not> has_key (visit_subexpression pre data) k"
  shows "visit_subexpression (pre @ k # post) data = JNull"
  using assms by (simp add: visit_subexpression_def visit_field_absent fold_visit_field_null)

text \<open>
  Claim C5, as amended. For every tuple selector with at least one segment whose
  segments are all JMESPath identifiers (a letter or underscore, then letters, digits
  and underscores), and every record: the column is named by the segments joined with
  an underscore; the value is the result of looking the segments up one after the
  other, and the query never fails; and when some segment is missing at its place (the
  value reached so far is not a dict with that key), the value is null and the step of
  the loop stores null under the column instead of failing.
\<close>

theorem nested_selector_tolerant:
  assumes "feature \<noteq> []" and "list_all is_identifier feature"
  shows "feature_column (Nested feature) = join ''_'' feature
       \<and> feature_value (Nested feature) result = Inr (visit_subexpression feature result)
       \<and> (\<forall>pre k post. feature = pre @ k # post \<and> \<not> has_key (visit_subexpression pre result) k
            \<longrightarrow> feature_value (Nested feature) result = Inr JNull
              \<and> set_feature df (Nested feature) result
                  = Inr (AList.update (join ''_'' feature) JNull df))"
proof -
  have v: "feature_value (Nested feature) result = Inr (visit_subexpression feature result)"
    by (simp add: jmespath_search_path [OF assms])
  show ?thesis
    using v by (auto simp: visit_subexpression_missing set_feature_def and_then_def set_cell_def)
qed

text \<open>The specification's scenario: the selector (seller, seller_reputation, level_id)
  on a record without \<^verbatim>\<open>seller\<close>.\<close>

theorem nested_selector_tolerant_witness:
  "feature_value (Nested [''seller'', ''seller_reputation'', ''level_id''])
       (JObj [(''price'', JNum 100)]) = Inr JNull
   \<and> set_feature [(''price'', JNum 100)] (Nested [''seller'', ''seller_reputation'', ''level_id''])
       (JObj [(''price'', JNum 100)])
     = Inr [(''price'', JNum 100), (''seller_seller_reputation_level_id'', JNull)]"
proof -
  have ids: "list_all is_identifier [''seller'', ''seller_reputation'', ''level_id'']"
    by (simp add: is_identifier_def START_IDENTIFIER_def VALID_IDENTIFIER_def)
  have missing: "\<not> has_key (visit_subexpression [] (JObj [(''price'', JNum 100)])) ''seller''"
    by (simp add: visit_subexpression_def)
  from nested_selector_tolerant [OF _ ids, of "JObj [(''price'', JNum 100)]" "[(''price'', JNum 100)]"]
  have "\<forall>pre k post. [''seller'', ''seller_reputation'', ''level_id''] = pre @ k # post
            \<and> \<not> has_key (visit_subexpression pre (JObj [(''price'', JNum 100)])) k
            \<longrightarrow> feature_value (Nested [''seller'', ''seller_reputation'', ''level_id'']) (JObj [(''price'', JNum 100)]) = Inr JNull
              \<and> set_feature [(''price'', JNum 100)] (Nested [''seller'', ''seller_reputation'', ''level_id'']) (JObj [(''price'', JNum 100)])
                  = Inr (AList.update (join ''_'' [''seller'', ''seller_reputation'', ''level_id'']) JNull [(''price'', JNum 100)])"
    by simp
  from this [rule_format, of "[]" "''seller''" "[''seller_reputation'', ''level_id'']"] missing
  show ?thesis by simp
qed

text \<open>
  The claim as stated, for every tuple selector, does not hold: the joined path is
  compiled as a JMESPath expression, and a segment that is not an identifier can make
  the compilation fail. Here the record has no \<^verbatim>\<open>seller\<close>, and the query raises
  instead of resolving to null.
\<close>

theorem nested_selector_invalid_segment_raises:
  "feature_value (Nested [''seller'', ''level#id'']) (JObj [(''price'', JNum 100)]) = Inl (Raises LexerError)
   \<and> single_df (JObj [(''price'', JNum 100)]) (Some [Direct ''price'', Nested [''seller'', ''level#id'']]) None
       = Inl (Raises LexerError)"
  by (simp add: single_df_def set_feature_def set_cell_def and_then_def jmespath_search_def
        path_char_def VALID_IDENTIFIER_def START_IDENTIFIER_def unknown_token_def)

text \<open>So does the empty tuple, whose joined path is the empty expression.\<close>

lemma empty_tuple_raises:
  "single_df result (Some [Nested []]) attributes = Inl (Raises EmptyExpressionError)"
  by (simp add: single_df_def set_feature_def and_then_def jmespath_search_def)


text \<open>Sequencing: the first failure is the failure of the whole.\<close>

lemma and_then_Inr_iff: "and_then r f = Inr y \<longleftrightarrow> (\<exists>v. r = Inr v \<and> f v = Inr y)"
  by (cases r) (simp_all add: and_then_def)

lemma and_then_Inr [simp]: "and_then (Inr v) f = f v"
  by (simp add: and_then_def)

lemma and_then_Inl [simp]: "and_then (Inl e) f = Inl e"
  by (simp add: and_then_def)

lemma set_feature_direct_absent:
  assumes "map_of kv name = None"
  shows "set_feature df (Direct name) (JObj kv) = Inl (Raises (KeyError (JStr name)))"
  using assms by (simp add: set_feature_def)

lemma set_features_append:
  "set_features df (pre @ post) result =
     and_then (set_features df pre result) (\<lambda>df'. set_features df' post result)"
proof (induction pre arbitrary: df)
  case Nil
  then show ?case by simp
next
  case (Cons f pre)
  show ?case
  proof (cases "set_feature df f result")
    case (Inl e)
    then show ?thesis by simp
  next
    case (Inr df')
    then show ?thesis by (simp add: Cons.IH)
  qed
qed

lemma set_features_Inr_each:
  assumes "set_features df features result = Inr df'" and "feature \<in> set features"
  shows "\<exists>d d'. set_feature d feature result = Inr d'"
  using assms
proof (induction features arbitrary: df)
  case Nil
  then show ?case by simp
next
  case (Cons f features)
  from Cons.prems(1) obtain d where d: "set_feature df f result = Inr d"
    and rest: "set_features d features result = Inr df'"
    by (auto simp: and_then_Inr_iff)
  show ?case
  proof (cases "feature = f")
    case True
    with d show ?thesis by blast
  next
    case False
    with Cons.prems(2) have "feature \<in> set features" by simp
    from Cons.IH [OF rest this] show ?thesis .
  qed
qed

text \<open>
  Claim C6. Take a record (a dict) and a direct selector among the features in force
  (the ones passed, or the defaults) whose field the record does not have. Then
  \<open>single_df\<close> returns no frame for that record. The lookup of line 60 is not
  guarded: when the features before it have been extracted, \<open>single_df\<close> ends with the
  \<^verbatim>\<open>KeyError\<close> of that lookup, which reaches the caller.
\<close>

theorem direct_selector_absent_fails:
  assumes "map_of kv name = None"
    and "Direct name \<in> set (features_or_default features)"
  shows "(\<forall>df. single_df (JObj kv) features attributes \<noteq> Inr df)
       \<and> (\<forall>pre post df.
             features_or_default features = pre @ Direct name # post
             \<and> set_features [] pre (JObj kv) = Inr df
             \<longrightarrow> single_df (JObj kv) features attributes = Inl (Raises (KeyError (JStr name))))"
proof (intro conjI allI impI)
  fix df
  show "single_df (JObj kv) features attributes \<noteq> Inr df"
  proof
    assume "single_df (JObj kv) features attributes = Inr df"
    then obtain d where "set_features [] (features_or_default features) (JObj kv) = Inr d"
      by (auto simp: single_df_def and_then_Inr_iff)
    from set_features_Inr_each [OF this assms(2)]
    show False by (simp add: set_feature_direct_absent [OF assms(1)])
  qed
next
  fix pre post df
  assume "features_or_default features = pre @ Direct name # post
             \<and> set_features [] pre (JObj kv) = Inr df"
  then show "single_df (JObj kv) features attributes = Inl (Raises (KeyError (JStr name)))"
    by (simp add: single_df_def set_features_append set_feature_direct_absent [OF assms(1)])
qed

text \<open>A record with a price and no currency, asked for both.\<close>

theorem direct_selector_absent_fails_witness:
  "single_df (JObj [(''price'', JNum 100)]) (Some [Direct ''price'', Direct ''currency_id'']) None
     = Inl (Raises (KeyError (JStr ''currency_id'')))"
proof -
  have absent: "map_of [(''price'', JNum 100)] ''currency_id'' = None" by simp
  have listed: "Direct ''currency_id'' \<in> set (features_or_default (Some [Direct ''price'', Direct ''currency_id'']))"
    by simp
  have before: "features_or_default (Some [Direct ''price'', Direct ''currency_id'']) = [Direct ''price''] @ Direct ''currency_id'' # []
      \<and> set_features [] [Direct ''price''] (JObj [(''price'', JNum 100)]) = Inr [(''price'', JNum 100)]"
    by (simp add: set_feature_def set_cell_def)
  from direct_selector_absent_fails [OF absent listed, of None] before
  show ?thesis by blast
qed

lemma index0_projection:
  "visit_index0 (JArr (filter (\<lambda>current. current \<noteq> JNull)
       (map (visit_field ''value_name'')
          (filter (\<lambda>element. visit_field ''id'' element = JStr attribute_id) entries))))
   = first_value_name attribute_id entries"
  by (induction entries) simp_all

lemma first_value_name_no_match:
  "filter (\<lambda>e. visit_field ''id'' e = JStr attribute_id) entries = []
    \<Longrightarrow> first_value_name attribute_id entries = JNull"
  by (induction entries) (simp_all split: if_splits)

lemma first_value_name_first_match:
  "spec_first_match_value_name attribute_id entries \<noteq> JNull
    \<Longrightarrow> first_value_name attribute_id entries = spec_first_match_value_name attribute_id entries"
  by (induction entries) (auto simp: spec_first_match_value_name_def split: if_splits)

text \<open>
  Claim C7, as amended. For every attribute identifier without a single quote or a
  backslash, and every record whose \<^verbatim>\<open>attributes\<close> field is a list, the query returns
  the first display value that is not null among the entries whose \<^verbatim>\<open>id\<close> equals the
  identifier. So it returns null when no entry matches, and it returns the display
  value of the first matching entry whenever that value is not null.
\<close>

theorem get_specific_attribute_first_value_name:
  assumes "CHR 0x27 \<notin> set attribute_id" and "CHR 0x5C \<notin> set attribute_id"
    and "visit_field ''attributes'' result = JArr entries"
  shows "get_specific_attribute attribute_id result = Inr (first_value_name attribute_id entries)
       \<and> (filter (\<lambda>e. visit_field ''id'' e = JStr attribute_id) entries = []
            \<longrightarrow> get_specific_attribute attribute_id result = Inr JNull)
       \<and> (spec_first_match_value_name attribute_id entries \<noteq> JNull
            \<longrightarrow> get_specific_attribute attribute_id result
                  = Inr (spec_first_match_value_name attribute_id entries))"
proof -
  have "get_specific_attribute attribute_id result = Inr (first_value_name attribute_id entries)"
    using assms by (simp add: get_specific_attribute_def visit_filter_projection_def index0_projection)
  then show ?thesis
    by (simp add: first_value_name_no_match first_value_name_first_match)
qed

text \<open>The specification's scenario: the list has a brand and no model.\<close>

theorem get_specific_attribute_first_value_name_witness:
  "get_specific_attribute ''MODEL'' acme_record = Inr JNull
   \<and> get_specific_attribute ''BRAND'' acme_record = Inr (JStr ''Acme'')"
proof -
  have a: "visit_field ''attributes'' acme_record = JArr [JObj [(''id'', JStr ''BRAND''), (''value_name'', JStr ''Acme'')]]"
    by (simp add: acme_record_def)
  have q: "CHR 0x27 \<notin> set ''MODEL''" "CHR 0x5C \<notin> set ''MODEL''"
     "CHR 0x27 \<notin> set ''BRAND''" "CHR 0x5C \<notin> set ''BRAND''" by simp_all
  from get_specific_attribute_first_value_name [OF q(1,2) a]
       get_specific_attribute_first_value_name [OF q(3,4) a]
  show ?thesis by (simp add: spec_first_match_value_name_def)
qed

text \<open>
  The claim as stated does not hold when the first matching entry has a null display
  value and a later matching entry has one: the projection drops the null before the
  index \<^verbatim>\<open>[0]\<close> is taken, so the query returns the later value, where the first
  matching entry's display value is null.
\<close>

theorem get_specific_attribute_skips_null_value_name:
  "get_specific_attribute ''BRAND'' (JObj [(''attributes'', JArr two_brands)]) = Inr (JStr ''Acme'')
   \<and> spec_first_match_value_name ''BRAND'' two_brands = JNull"
  by (simp add: get_specific_attribute_def visit_filter_projection_def two_brands_def
        spec_first_match_value_name_def)

text \<open>A record without an attribute list gives null.\<close>

lemma get_specific_attribute_no_list:
  assumes "CHR 0x27 \<notin> set attribute_id" and "CHR 0x5C \<notin> set attribute_id"
    and "\<And>entries. visit_field ''attributes'' result \<noteq> JArr entries"
  shows "get_specific_attribute attribute_id result = Inr JNull"
  using assms
  by (cases "visit_field ''attributes'' result")
     (auto simp: get_specific_attribute_def visit_filter_projection_def)


section \<open>Properties of the table assembler\<close>

text \<open>
  Claim C1. The specification asks \<open>basic_df\<close> to return a valid table without rows,
  carrying the requested columns, when it is given no record. The code does not: the
  loop of line 75 never runs, \<^verbatim>\<open>df\<close> is never assigned, and line 84 raises
  \<^verbatim>\<open>UnboundLocalError\<close>, whatever features and attributes were requested.
\<close>

theorem basic_df_empty_raises:
  "basic_df [] features attributes = Inl (Raises UnboundLocalError)"
  by (simp add: basic_df_def and_then_def)
















section \<open>Properties of the enricher\<close>

text \<open>The result of \<open>apply_rows\<close> has one value for each row.\<close>

lemma apply_rows_length: "apply_rows f df = Inr vs \<Longrightarrow> length vs = length df"
  by (induction df arbitrary: vs) (auto simp: and_then_Inr_iff)

lemma apply_rows_nth:
  "apply_rows f df = Inr vs \<Longrightarrow> i < length df \<Longrightarrow> f (df ! i) = Inr (vs ! i)"
proof (induction df arbitrary: vs i)
  case Nil
  then show ?case by simp
next
  case (Cons r df)
  from Cons.prems(1) obtain v ws where v: "f r = Inr v" and ws: "apply_rows f df = Inr ws"
    and vs: "vs = v # ws"
    by (auto simp: and_then_Inr_iff)
  show ?case
  proof (cases i)
    case 0
    with v vs show ?thesis by simp
  next
    case (Suc j)
    with Cons.prems(2) have "j < length df" by simp
    from Cons.IH [OF ws this] Suc vs show ?thesis by simp
  qed
qed

lemma length_set_column: "length vs = length df \<Longrightarrow> length (set_column df c vs) = length df"
  by (simp add: set_column_def)

lemma set_column_nth:
  "length vs = length df \<Longrightarrow> i < length df \<Longrightarrow>
     set_column df c vs ! i = AList.update c (vs ! i) (df ! i)"
  by (simp add: set_column_def)

lemma length_loc_assign: "length sel = length df \<Longrightarrow> length (loc_assign df sel c v) = length df"
  by (simp add: loc_assign_def)

lemma loc_assign_nth:
  "length sel = length df \<Longrightarrow> i < length df \<Longrightarrow>
     loc_assign df sel c v ! i = (if sel ! i then AList.update c v (df ! i) else df ! i)"
  by (simp add: loc_assign_def)

text \<open>When the enricher returns, each row of the result is the row-wise reading of the
  four derivations applied to the row at the same position.\<close>

lemma calculate_discount_metrics_rows:
  assumes "calculate_discount_metrics mapper_currency df = Inr df'"
  shows "length df' = length df \<and>
         (\<forall>i<length df. enrich_row mapper_currency (df ! i) = Inr (df' ! i))"
proof -
  define df1 where "df1 p = set_column df ''price_USD'' p" for p
  define df2 where "df2 p = set_column (df1 p) ''discount'' (replicate (length (df1 p)) (JNum 1))" for p
  define df3 where "df3 p orig = loc_assign (df2 p) (map isna orig) ''discount'' (JNum 0)" for p orig
  define df4 where "df4 p orig d = set_column (df3 p orig) ''descuento_precio'' d" for p orig d
  from assms obtain p orig d u where
    p: "apply_rows (to_USD mapper_currency ''price'') df = Inr p" and
    orig: "apply_rows (\<lambda>r. row_attr r ''original_price'') (df2 p) = Inr orig" and
    d: "apply_rows descuento_precio (df3 p orig) = Inr d" and
    u: "apply_rows (to_USD mapper_currency ''descuento_precio'') (df4 p orig d) = Inr u" and
    df': "df' = set_column (df4 p orig d) ''descuento_USD'' u"
    unfolding calculate_discount_metrics_def df1_def df2_def df3_def df4_def Let_def
    by (auto simp: and_then_Inr_iff split: if_splits)
  have l1: "length (df1 p) = length df"
    using apply_rows_length [OF p] by (simp add: df1_def length_set_column)
  have l2: "length (df2 p) = length df"
    using l1 by (simp add: df2_def length_set_column)
  have lo: "length orig = length df"
    using apply_rows_length [OF orig] l2 by simp
  have l3: "length (df3 p orig) = length df"
    using l2 lo by (simp add: df3_def length_loc_assign)
  have ld: "length d = length df"
    using apply_rows_length [OF d] l3 by simp
  have l4: "length (df4 p orig d) = length df"
    using l3 ld by (simp add: df4_def length_set_column)
  have lu: "length u = length df"
    using apply_rows_length [OF u] l4 by simp
  have len: "length df' = length df"
    using l4 lu by (simp add: df' length_set_column)
  have row: "enrich_row mapper_currency (df ! i) = Inr (df' ! i)" if i: "i < length df" for i
  proof -
    have r1: "df1 p ! i = AList.update ''price_USD'' (p ! i) (df ! i)"
      using apply_rows_length [OF p] i by (simp add: df1_def set_column_nth)
    have r2: "df2 p ! i = AList.update ''discount'' (JNum 1) (df1 p ! i)"
      using l1 i by (simp add: df2_def set_column_nth)
    have r3: "df3 p orig ! i =
        (if isna (orig ! i) then AList.update ''discount'' (JNum 0) (df2 p ! i) else df2 p ! i)"
      using l2 lo i by (simp add: df3_def loc_assign_nth)
    have r4: "df4 p orig d ! i = AList.update ''descuento_precio'' (d ! i) (df3 p orig ! i)"
      using l3 ld i by (simp add: df4_def set_column_nth)
    have r5: "df' ! i = AList.update ''descuento_USD'' (u ! i) (df4 p orig d ! i)"
      using l4 lu i by (simp add: df' set_column_nth)
    have e1: "to_USD mapper_currency ''price'' (df ! i) = Inr (p ! i)"
      using apply_rows_nth [OF p i] .
    have e2: "row_attr (df2 p ! i) ''original_price'' = Inr (orig ! i)"
      using apply_rows_nth [OF orig] i l2 by simp
    have e3: "descuento_precio (df3 p orig ! i) = Inr (d ! i)"
      using apply_rows_nth [OF d] i l3 by simp
    have e4: "to_USD mapper_currency ''descuento_precio'' (df4 p orig d ! i) = Inr (u ! i)"
      using apply_rows_nth [OF u] i l4 by simp
    show ?thesis
    proof (cases "isna (orig ! i)")
      case True
      with r3 have r3': "df3 p orig ! i = AList.update ''discount'' (JNum 0) (df2 p ! i)"
        by simp
      show ?thesis
        unfolding enrich_row_def Let_def
        using e1 e2 e3 e4 True by (simp add: r1 r2 r3' r4 r5)
    next
      case False
      with r3 have r3': "df3 p orig ! i = df2 p ! i"
        by simp
      show ?thesis
        unfolding enrich_row_def Let_def
        using e1 e2 e3 e4 False by (simp add: r1 r2 r3' r4 r5)
    qed
  qed
  from len row show ?thesis by blast
qed

lemma apply_rows_each:
  assumes "apply_rows f df = Inr vs" and "r \<in> set df"
  shows "\<exists>v. f r = Inr v"
  using assms apply_rows_nth [OF assms(1)] by (metis in_set_conv_nth)

lemma enrich_row_steps:
  assumes "enrich_row mapper_currency r = Inr r'"
  obtains price_USD original_price descuento descuento_USD where
    "to_USD mapper_currency ''price'' r = Inr price_USD"
    "map_of r ''original_price'' = Some original_price"
    "descuento_precio
       (AList.update ''discount'' (if isna original_price then JNum 0 else JNum 1)
          (AList.update ''price_USD'' price_USD r)) = Inr descuento"
    "to_USD mapper_currency ''descuento_precio''
       (AList.update ''descuento_precio'' descuento
          (AList.update ''discount'' (if isna original_price then JNum 0 else JNum 1)
             (AList.update ''price_USD'' price_USD r))) = Inr descuento_USD"
    "r' = AList.update ''descuento_USD'' descuento_USD
            (AList.update ''descuento_precio'' descuento
               (AList.update ''discount'' (if isna original_price then JNum 0 else JNum 1)
                  (AList.update ''price_USD'' price_USD r)))"
proof -
  from assms obtain p orig d u where
    p: "to_USD mapper_currency ''price'' r = Inr p" and
    orig: "row_attr (AList.update ''discount'' (JNum 1) (AList.update ''price_USD'' p r))
             ''original_price'' = Inr orig" and
    d: "descuento_precio
          (if isna orig
           then AList.update ''discount'' (JNum 0)
                  (AList.update ''discount'' (JNum 1) (AList.update ''price_USD'' p r))
           else AList.update ''discount'' (JNum 1) (AList.update ''price_USD'' p r)) = Inr d" and
    u: "to_USD mapper_currency ''descuento_precio''
          (AList.update ''descuento_precio'' d
            (if isna orig
             then AList.update ''discount'' (JNum 0)
                    (AList.update ''discount'' (JNum 1) (AList.update ''price_USD'' p r))
             else AList.update ''discount'' (JNum 1) (AList.update ''price_USD'' p r))) = Inr u" and
    r': "r' = AList.update ''descuento_USD'' u
          (AList.update ''descuento_precio'' d
            (if isna orig
             then AList.update ''discount'' (JNum 0)
                    (AList.update ''discount'' (JNum 1) (AList.update ''price_USD'' p r))
             else AList.update ''discount'' (JNum 1) (AList.update ''price_USD'' p r)))"
    unfolding enrich_row_def Let_def by (auto simp: and_then_Inr_iff)
  have o: "map_of r ''original_price'' = Some orig"
    using orig by (simp add: row_attr_def update_conv' split: option.splits)
  have same: "(if isna orig
             then AList.update ''discount'' (JNum 0)
                    (AList.update ''discount'' (JNum 1) (AList.update ''price_USD'' p r))
             else AList.update ''discount'' (JNum 1) (AList.update ''price_USD'' p r))
        = AList.update ''discount'' (if isna orig then JNum 0 else JNum 1)
            (AList.update ''price_USD'' p r)"
    by simp
  show ?thesis
    using that [OF p o] d u r' unfolding same by blast
qed

lemma enrich_row_other_columns:
  assumes "enrich_row mapper_currency r = Inr r'" and "c \<notin> set derived_columns"
  shows "map_of r' c = map_of r c"
  using assms(1)
proof (rule enrich_row_steps)
  fix price_USD original_price descuento descuento_USD
  assume "r' = AList.update ''descuento_USD'' descuento_USD
            (AList.update ''descuento_precio'' descuento
               (AList.update ''discount'' (if isna original_price then JNum 0 else JNum 1)
                  (AList.update ''price_USD'' price_USD r)))"
  with assms(2) show ?thesis
    by (simp add: update_conv' derived_columns_def)
qed

lemma enrich_row_labels:
  assumes "enrich_row mapper_currency r = Inr r'"
  shows "map fst r' = foldl add_label (map fst r) derived_columns"
  using assms
proof (rule enrich_row_steps)
  fix price_USD original_price descuento descuento_USD
  assume "r' = AList.update ''descuento_USD'' descuento_USD
            (AList.update ''descuento_precio'' descuento
               (AList.update ''discount'' (if isna original_price then JNum 0 else JNum 1)
                  (AList.update ''price_USD'' price_USD r)))"
  then show ?thesis
    by (simp add: update_keys derived_columns_def add_label_def)
qed

lemma enrich_row_discount:
  assumes "enrich_row mapper_currency r = Inr r'"
  shows "\<exists>original_price. map_of r' ''original_price'' = Some original_price
          \<and> map_of r' ''discount'' = Some (if isna original_price then JNum 0 else JNum 1)"
  using assms
proof (rule enrich_row_steps)
  fix price_USD original_price descuento descuento_USD
  assume "map_of r ''original_price'' = Some original_price"
    and "r' = AList.update ''descuento_USD'' descuento_USD
            (AList.update ''descuento_precio'' descuento
               (AList.update ''discount'' (if isna original_price then JNum 0 else JNum 1)
                  (AList.update ''price_USD'' price_USD r)))"
  then show ?thesis
    by (simp add: update_conv')
qed

lemma to_USD_zero:
  assumes "to_USD mapper_currency amount r = Inr v" and "map_of r amount = Some (JNum 0)"
  shows "v = JNum 0"
  using assms
  by (auto simp: to_USD_def row_attr_def and_then_Inr_iff split: option.splits if_splits)

lemma enrich_row_no_discount:
  assumes "enrich_row mapper_currency r = Inr r'" and "map_of r' ''discount'' = Some (JNum 0)"
  shows "map_of r' ''descuento_precio'' = Some (JNum 0) \<and> map_of r' ''descuento_USD'' = Some (JNum 0)"
  using assms(1)
proof (rule enrich_row_steps)
  fix price_USD original_price descuento descuento_USD
  let ?r3 = "AList.update ''discount'' (if isna original_price then JNum 0 else JNum 1)
                  (AList.update ''price_USD'' price_USD r)"
  assume d: "descuento_precio ?r3 = Inr descuento"
    and u: "to_USD mapper_currency ''descuento_precio''
              (AList.update ''descuento_precio'' descuento ?r3) = Inr descuento_USD"
    and r': "r' = AList.update ''descuento_USD'' descuento_USD
              (AList.update ''descuento_precio'' descuento ?r3)"
  from assms(2) r' have flag: "map_of ?r3 ''discount'' = Some (JNum 0)"
    by (simp add: update_conv')
  with d have d0: "descuento = JNum 0"
    by (simp add: descuento_precio_def row_attr_def)
  have "map_of (AList.update ''descuento_precio'' descuento ?r3) ''descuento_precio'' = Some (JNum 0)"
    using d0 by (simp add: update_conv')
  from to_USD_zero [OF u this] have u0: "descuento_USD = JNum 0" .
  show ?thesis
    using r' d0 u0 by (simp add: update_conv')
qed

text \<open>
  Claim C8. In every row of a table the enricher returns, the column
  \<^verbatim>\<open>original_price\<close> is present, the discount flag is 1 exactly when the original
  price is not null and 0 exactly when it is null, and whenever the flag is 0 the two
  discount amounts \<^verbatim>\<open>descuento_precio\<close> and \<^verbatim>\<open>descuento_USD\<close> are 0.
\<close>

theorem discount_flag_and_amounts:
  assumes "calculate_discount_metrics mapper_currency df = Inr df'" and "r' \<in> set df'"
  shows "\<exists>original_price. map_of r' ''original_price'' = Some original_price
       \<and> (map_of r' ''discount'' = Some (JNum 1)) = (\<not> isna original_price)
       \<and> (map_of r' ''discount'' = Some (JNum 0)) = isna original_price
       \<and> (map_of r' ''discount'' = Some (JNum 0) \<longrightarrow>
            map_of r' ''descuento_precio'' = Some (JNum 0)
            \<and> map_of r' ''descuento_USD'' = Some (JNum 0))"
proof -
  from assms(2) obtain i where i: "i < length df'" and r': "df' ! i = r'"
    by (auto simp: in_set_conv_nth)
  from calculate_discount_metrics_rows [OF assms(1)] i r'
  have row: "enrich_row mapper_currency (df ! i) = Inr r'" by auto
  from enrich_row_discount [OF row] obtain original_price where
    o: "map_of r' ''original_price'' = Some original_price" and
    flag: "map_of r' ''discount'' = Some (if isna original_price then JNum 0 else JNum 1)"
    by blast
  from flag have "(map_of r' ''discount'' = Some (JNum 1)) = (\<not> isna original_price)"
    and "(map_of r' ''discount'' = Some (JNum 0)) = isna original_price"
    by (simp_all split: if_splits)
  with o enrich_row_no_discount [OF row] show ?thesis by blast
qed

lemma sample_enriched:
  "calculate_discount_metrics sample_rates sample_table = Inr enriched_sample"
  by (simp add: calculate_discount_metrics_def sample_rates_def sample_table_def
        enriched_sample_def to_USD_def row_attr_def descuento_precio_def set_column_def
        loc_assign_def isna_def Let_def)

text \<open>The row without an original price of the enriched sample.\<close>

theorem discount_flag_and_amounts_witness:
  "calculate_discount_metrics sample_rates sample_table = Inr enriched_sample
   \<and> map_of no_discount_row ''original_price'' = Some JNull
   \<and> isna JNull
   \<and> map_of no_discount_row ''discount'' = Some (JNum 0)
   \<and> map_of no_discount_row ''descuento_precio'' = Some (JNum 0)
   \<and> map_of no_discount_row ''descuento_USD'' = Some (JNum 0)"
proof -
  have mem: "no_discount_row \<in> set enriched_sample"
    by (simp add: no_discount_row_def enriched_sample_def)
  from discount_flag_and_amounts [OF sample_enriched mem]
  obtain original_price where
    "map_of no_discount_row ''original_price'' = Some original_price"
    "(map_of no_discount_row ''discount'' = Some (JNum 0)) = isna original_price"
    "map_of no_discount_row ''discount'' = Some (JNum 0) \<longrightarrow>
       map_of no_discount_row ''descuento_precio'' = Some (JNum 0)
       \<and> map_of no_discount_row ''descuento_USD'' = Some (JNum 0)"
    by blast
  moreover have "map_of no_discount_row ''original_price'' = Some JNull"
    by (simp add: no_discount_row_def)
  ultimately show ?thesis
    using sample_enriched by (simp add: isna_def)
qed

lemma to_USD_missing_rate:
  assumes "map_of r ''currency_id'' = Some c" and "c \<noteq> JStr ''USD''"
    and "\<not> is_rate_key mapper_currency c"
  shows "\<exists>e. to_USD mapper_currency amount r = Inl (Raises e)"
  using assms
  by (cases c; cases "map_of r amount")
     (auto simp: to_USD_def row_attr_def split: option.splits)

lemma to_USD_missing_code:
  assumes "map_of r ''currency_id'' = Some (JStr code)" and "code \<noteq> ''USD''"
    and "mapper_currency code = None" and "map_of r amount = Some x"
  shows "to_USD mapper_currency amount r = Inl (Raises (KeyError (JStr code)))"
  using assms by (simp add: to_USD_def row_attr_def)

text \<open>A row that raises after rows that do not: its exception is the one of the whole.\<close>

lemma apply_rows_fails_at:
  assumes "apply_rows f pre = Inr vs" and "f r = Inl e"
  shows "apply_rows f (pre @ r # rest) = Inl e"
  using assms
proof (induction pre arbitrary: vs)
  case Nil
  then show ?case by simp
next
  case (Cons x pre)
  from Cons.prems(1) obtain v ws where "f x = Inr v" "apply_rows f pre = Inr ws"
    by (auto simp: and_then_Inr_iff)
  with Cons.IH [OF _ Cons.prems(2)] show ?case by simp
qed

text \<open>
  Claim C9. Take a row of the table whose \<^verbatim>\<open>currency_id\<close> is not \<^verbatim>\<open>USD\<close> and is not a
  key of the rate map. Then the enricher returns no table; the derivation of that
  row's \<^verbatim>\<open>price_USD\<close> raises (no rate is substituted); and when the cell is a
  currency code, the row has a price and the \<^verbatim>\<open>price_USD\<close> of the rows before it can
  be derived, the enricher ends with the \<^verbatim>\<open>KeyError\<close> of the rate lookup for that
  code.
\<close>

theorem missing_rate_fails:
  assumes "r \<in> set df" and "map_of r ''currency_id'' = Some c"
    and "c \<noteq> JStr ''USD''" and "\<not> is_rate_key mapper_currency c"
  shows "(\<forall>df'. calculate_discount_metrics mapper_currency df \<noteq> Inr df')
       \<and> (\<exists>e. to_USD mapper_currency ''price'' r = Inl (Raises e))
       \<and> (\<forall>code x pre rest vs.
            c = JStr code \<and> map_of r ''price'' = Some x \<and> df = pre @ r # rest
            \<and> apply_rows (to_USD mapper_currency ''price'') pre = Inr vs \<longrightarrow>
            calculate_discount_metrics mapper_currency df = Inl (Raises (KeyError (JStr code))))"
proof (intro conjI allI impI)
  show row: "\<exists>e. to_USD mapper_currency ''price'' r = Inl (Raises e)"
    by (rule to_USD_missing_rate [OF assms(2,3,4)])
  fix df'
  show "calculate_discount_metrics mapper_currency df \<noteq> Inr df'"
  proof
    assume "calculate_discount_metrics mapper_currency df = Inr df'"
    then obtain p where "apply_rows (to_USD mapper_currency ''price'') df = Inr p"
      by (auto simp: calculate_discount_metrics_def and_then_Inr_iff split: if_splits)
    from apply_rows_each [OF this assms(1)] row show False by auto
  qed
next
  fix code x pre rest vs
  assume h: "c = JStr code \<and> map_of r ''price'' = Some x \<and> df = pre @ r # rest
            \<and> apply_rows (to_USD mapper_currency ''price'') pre = Inr vs"
  with assms(2,3,4) have "to_USD mapper_currency ''price'' r = Inl (Raises (KeyError (JStr code)))"
    by (intro to_USD_missing_code) auto
  with h have "apply_rows (to_USD mapper_currency ''price'') df = Inl (Raises (KeyError (JStr code)))"
    by (auto intro: apply_rows_fails_at)
  with h show "calculate_discount_metrics mapper_currency df = Inl (Raises (KeyError (JStr code)))"
    by (simp add: calculate_discount_metrics_def)
qed

text \<open>A listing in reais after the two sample rows, against rates that only know the
  peso.\<close>

theorem missing_rate_fails_witness:
  "calculate_discount_metrics sample_rates (sample_table @ [brl_row])
     = Inl (Raises (KeyError (JStr ''BRL'')))"
proof -
  have "brl_row \<in> set (sample_table @ [brl_row])" by simp
  moreover have "map_of brl_row ''currency_id'' = Some (JStr ''BRL'')"
    by (simp add: brl_row_def)
  moreover have "JStr ''BRL'' \<noteq> JStr ''USD''" by simp
  moreover have "\<not> is_rate_key sample_rates (JStr ''BRL'')" by (simp add: sample_rates_def)
  ultimately have "\<forall>code x pre rest vs.
        JStr ''BRL'' = JStr code \<and> map_of brl_row ''price'' = Some x
        \<and> sample_table @ [brl_row] = pre @ brl_row # rest
        \<and> apply_rows (to_USD sample_rates ''price'') pre = Inr vs \<longrightarrow>
            calculate_discount_metrics sample_rates (sample_table @ [brl_row])
              = Inl (Raises (KeyError (JStr code)))"
    using missing_rate_fails [of brl_row "sample_table @ [brl_row]" "JStr ''BRL''" sample_rates]
    by blast
  moreover have "map_of brl_row ''price'' = Some (JNum 100)" by (simp add: brl_row_def)
  moreover have "apply_rows (to_USD sample_rates ''price'') sample_table = Inr [JNum (1 / 10), JNum 20]"
    by (simp add: sample_table_def sample_rates_def to_USD_def row_attr_def)
  ultimately show ?thesis by blast
qed

text \<open>
  Claim C10, as amended. For every table on which the enricher returns: the result
  has as many rows as the input; in every row, every column other than the four
  derived ones has the value it had; and the labels of the row are those of the
  input followed by the derived columns the input did not have (a derived column the
  input already had keeps its place and is overwritten). In particular, for a row
  that has none of the four derived labels, exactly the four derived columns are
  appended and every column of the input is unchanged.
\<close>

theorem enrichment_frame:
  assumes "calculate_discount_metrics mapper_currency df = Inr df'"
  shows "length df' = length df
       \<and> (\<forall>i<length df.
            (\<forall>c. c \<notin> set derived_columns \<longrightarrow> map_of (df' ! i) c = map_of (df ! i) c)
            \<and> map fst (df' ! i) = foldl add_label (map fst (df ! i)) derived_columns
            \<and> (set (map fst (df ! i)) \<inter> set derived_columns = {} \<longrightarrow>
                 map fst (df' ! i) = map fst (df ! i) @ derived_columns
                 \<and> (\<forall>c\<in>set (map fst (df ! i)). map_of (df' ! i) c = map_of (df ! i) c)))"
proof -
  from calculate_discount_metrics_rows [OF assms]
  have len: "length df' = length df"
    and rows: "\<And>i. i < length df \<Longrightarrow> enrich_row mapper_currency (df ! i) = Inr (df' ! i)"
    by auto
  have "(\<forall>c. c \<notin> set derived_columns \<longrightarrow> map_of (df' ! i) c = map_of (df ! i) c)
            \<and> map fst (df' ! i) = foldl add_label (map fst (df ! i)) derived_columns
            \<and> (set (map fst (df ! i)) \<inter> set derived_columns = {} \<longrightarrow>
                 map fst (df' ! i) = map fst (df ! i) @ derived_columns
                 \<and> (\<forall>c\<in>set (map fst (df ! i)). map_of (df' ! i) c = map_of (df ! i) c))"
    if i: "i < length df" for i
  proof -
    note row = rows [OF i]
    have other: "\<forall>c. c \<notin> set derived_columns \<longrightarrow> map_of (df' ! i) c = map_of (df ! i) c"
      using enrich_row_other_columns [OF row] by blast
    have labels: "map fst (df' ! i) = foldl add_label (map fst (df ! i)) derived_columns"
      by (rule enrich_row_labels [OF row])
    have fresh: "map fst (df' ! i) = map fst (df ! i) @ derived_columns
                 \<and> (\<forall>c\<in>set (map fst (df ! i)). map_of (df' ! i) c = map_of (df ! i) c)"
      if "set (map fst (df ! i)) \<inter> set derived_columns = {}"
    proof
      show "map fst (df' ! i) = map fst (df ! i) @ derived_columns"
        using that unfolding labels by (auto simp: derived_columns_def add_label_def)
      show "\<forall>c\<in>set (map fst (df ! i)). map_of (df' ! i) c = map_of (df ! i) c"
        using that other by blast
    qed
    from other labels fresh show ?thesis by blast
  qed
  with len show ?thesis by blast
qed

text \<open>The sample table has none of the derived columns.\<close>

theorem enrichment_frame_witness:
  "calculate_discount_metrics sample_rates sample_table = Inr enriched_sample
   \<and> length enriched_sample = length sample_table
   \<and> map fst (enriched_sample ! 0) = map fst (sample_table ! 0) @ derived_columns
   \<and> map_of (enriched_sample ! 0) ''price'' = map_of (sample_table ! 0) ''price''"
proof -
  have i: "0 < length sample_table" by (simp add: sample_table_def)
  have fresh: "set (map fst (sample_table ! 0)) \<inter> set derived_columns = {}"
    by (simp add: sample_table_def derived_columns_def)
  have price: "''price'' \<in> set (map fst (sample_table ! 0))"
    by (simp add: sample_table_def)
  from enrichment_frame [OF sample_enriched] i fresh price
  show ?thesis using sample_enriched by blast
qed

text \<open>
  The claim as stated, for every table, does not hold for a table that already has a
  column with one of the four derived labels: the enricher overwrites it (here
  \<^verbatim>\<open>price_USD\<close> goes from 5 to 1/10) and adds three columns, not four.
\<close>

theorem enrichment_overwrites_existing_column:
  "calculate_discount_metrics sample_rates repriced_table
     = Inr [[(''price'', JNum 100), (''currency_id'', JStr ''ARS''), (''original_price'', JNull),
             (''price_USD'', JNum (1 / 10)), (''discount'', JNum 0),
             (''descuento_precio'', JNum 0), (''descuento_USD'', JNum 0)]]
   \<and> map_of (hd repriced_table) ''price_USD'' = Some (JNum 5)"
  by (simp add: calculate_discount_metrics_def sample_rates_def repriced_table_def
        to_USD_def row_attr_def descuento_precio_def set_column_def
        loc_assign_def isna_def Let_def)

end
